theory Spec2Isabelle
  imports Main
begin

section \<open>Values of the host language\<close>

text \<open>
  The frames on the channel, the tool arguments and the thrown values are untyped
  (\<^verbatim>\<open>any\<close>) in the source. They are modelled by the tree-shaped values below. Numbers
  are restricted to integers; an \<^verbatim>\<open>Error\<close> instance is a value of its own, so that
  \<^verbatim>\<open>instanceof Error\<close> can be decided.
\<close>

datatype js_Error = Error (message: string) (stack: "string option")

datatype jsval =
    JUndefined
  | JNull
  | JBool bool
  | JNum int
  | JStr string
  | JArr "jsval list"
  | JObj "(string \<times> jsval) list"
  | JError js_Error

text \<open>Truthiness, as used by \<^verbatim>\<open>if (x)\<close>, \<^verbatim>\<open>a && b\<close> and \<^verbatim>\<open>a || b\<close>.\<close>

fun truthy :: "jsval \<Rightarrow> bool" where
  "truthy JUndefined = False"
| "truthy JNull = False"
| "truthy (JBool b) = b"
| "truthy (JNum n) = (n \<noteq> 0)"
| "truthy (JStr s) = (s \<noteq> [])"
| "truthy (JArr xs) = True"
| "truthy (JObj fs) = True"
| "truthy (JError e) = True"

text \<open>
  Strict equality \<^verbatim>\<open>a === b\<close> between a value that arrived in a message and a
  constant: primitives are compared by value, objects by identity, and an object of a
  message is never identical to a constant.
\<close>

fun strict_eq :: "jsval \<Rightarrow> jsval \<Rightarrow> bool" where
  "strict_eq JUndefined b = (b = JUndefined)"
| "strict_eq JNull b = (b = JNull)"
| "strict_eq (JBool x) b = (b = JBool x)"
| "strict_eq (JNum x) b = (b = JNum x)"
| "strict_eq (JStr x) b = (b = JStr x)"
| "strict_eq (JArr xs) b = False"
| "strict_eq (JObj fs) b = False"
| "strict_eq (JError e) b = False"

text \<open>\<^verbatim>\<open>instanceof Error\<close>.\<close>

fun instanceof_Error :: "jsval \<Rightarrow> bool" where
  "instanceof_Error (JError e) = True"
| "instanceof_Error v = False"


text \<open>
  The value raised by a property read on \<^verbatim>\<open>undefined\<close> or \<^verbatim>\<open>null\<close>.
\<close>

definition TypeError :: "string \<Rightarrow> jsval" where
  "TypeError k = JError (Error (''Cannot read properties of undefined or null, reading '' @ k) None)"

text \<open>
  The property read \<^verbatim>\<open>v.k\<close>, for the property names that the source reads
  (\<^verbatim>\<open>type\<close>, \<^verbatim>\<open>requestId\<close>, \<^verbatim>\<open>payload\<close>, \<^verbatim>\<open>port\<close>, \<^verbatim>\<open>message\<close>, \<^verbatim>\<open>data\<close>): \<open>None\<close> is the
  \<^verbatim>\<open>TypeError\<close> of a read on \<^verbatim>\<open>undefined\<close> or \<^verbatim>\<open>null\<close>; a missing property, and
  any of these properties of a boolean, number, string or array, is \<^verbatim>\<open>undefined\<close>.
\<close>

fun get_prop :: "jsval \<Rightarrow> string \<Rightarrow> jsval option" where
  "get_prop JUndefined k = None"
| "get_prop JNull k = None"
| "get_prop (JObj fs) k = Some (case map_of fs k of None \<Rightarrow> JUndefined | Some v \<Rightarrow> v)"
| "get_prop (JError e) k =
     Some (if k = ''message'' then JStr (message e)
           else if k = ''stack'' then (case stack e of None \<Rightarrow> JUndefined | Some s \<Rightarrow> JStr s)
           else JUndefined)"
| "get_prop (JBool b) k = Some JUndefined"
| "get_prop (JNum n) k = Some JUndefined"
| "get_prop (JStr s) k = Some JUndefined"
| "get_prop (JArr xs) k = Some JUndefined"

text \<open>The optional read \<^verbatim>\<open>v?.k\<close>.\<close>

definition get_prop_opt :: "jsval \<Rightarrow> string \<Rightarrow> jsval" where
  "get_prop_opt v k = (case get_prop v k of None \<Rightarrow> JUndefined | Some x \<Rightarrow> x)"

text \<open>
  Two built-in conversions of the host are parameters of the model: the string
  conversion of numbers, arrays, objects and errors, and the text that
  \<^verbatim>\<open>JSON.stringify\<close> yields for a value other than \<^verbatim>\<open>undefined\<close>.
\<close>

record host =
  ToString :: "jsval \<Rightarrow> string"
  JSON_text :: "jsval \<Rightarrow> string"

text \<open>
  \<^verbatim>\<open>JSON.stringify(v)\<close>: on tree-shaped values it does not throw; it is \<^verbatim>\<open>undefined\<close> for
  \<^verbatim>\<open>undefined\<close> and a string for every other value.
\<close>

definition JSON_stringify :: "host \<Rightarrow> jsval \<Rightarrow> jsval" where
  "JSON_stringify H v = (case v of JUndefined \<Rightarrow> JUndefined | _ \<Rightarrow> JStr (JSON_text H v))"

text \<open>\<^verbatim>\<open>String(v)\<close> and the conversion inside a template literal.\<close>

definition String_of :: "host \<Rightarrow> jsval \<Rightarrow> string" where
  "String_of H v =
     (case v of
        JStr s \<Rightarrow> s
      | JUndefined \<Rightarrow> ''undefined''
      | JNull \<Rightarrow> ''null''
      | JBool b \<Rightarrow> (if b then ''true'' else ''false'')
      | _ \<Rightarrow> ToString H v)"

section \<open>Constants declared outside the source files\<close>

text \<open>
  \<^verbatim>\<open>NativeMessageType\<close> (package chrome-mcp-shared), \<^verbatim>\<open>BACKGROUND_MESSAGE_TYPES\<close>,
  \<^verbatim>\<open>ERROR_MESSAGES\<close>, \<^verbatim>\<open>SUCCESS_MESSAGES\<close>, \<^verbatim>\<open>STORAGE_KEYS\<close> and \<^verbatim>\<open>NATIVE_HOST\<close> are
  imported by the source files and declared elsewhere. Their values are parameters.
\<close>

record constants =
  NativeMessageType_START :: jsval
  NativeMessageType_PROCESS_DATA :: jsval
  NativeMessageType_CALL_TOOL :: jsval
  NativeMessageType_LIST_TOOLS :: jsval
  NativeMessageType_SERVER_STARTED :: jsval
  NativeMessageType_SERVER_STOPPED :: jsval
  NativeMessageType_ERROR_FROM_NATIVE_HOST :: jsval
  NativeMessageType_CONNECT_NATIVE :: jsval
  NativeMessageType_PING_NATIVE :: jsval
  NativeMessageType_DISCONNECT_NATIVE :: jsval
  BACKGROUND_SERVER_STATUS_CHANGED :: jsval
  BACKGROUND_GET_SERVER_STATUS :: jsval
  BACKGROUND_REFRESH_SERVER_STATUS :: jsval
  ERROR_MESSAGES_SERVER_STATUS_SAVE_FAILED :: jsval
  ERROR_MESSAGES_SERVER_STATUS_LOAD_FAILED :: jsval
  ERROR_MESSAGES_TOOL_EXECUTION_FAILED :: jsval
  ERROR_MESSAGES_NATIVE_DISCONNECTED :: jsval
  ERROR_MESSAGES_NATIVE_CONNECTION_FAILED :: jsval
  SUCCESS_MESSAGES_TOOL_EXECUTED :: jsval
  SUCCESS_MESSAGES_SERVER_STARTED :: jsval
  SUCCESS_MESSAGES_SERVER_STOPPED :: jsval
  STORAGE_KEYS_SERVER_STATUS :: string
  NATIVE_HOST_NAME :: jsval
  NATIVE_HOST_DEFAULT_PORT :: jsval

text \<open>How an awaited promise settles: it resolves with a value or rejects with a reason.\<close>

datatype settlement = Resolved jsval | Rejected jsval

section \<open>The tool bridge (register-tools.ts)\<close>

text \<open>
  \<^verbatim>\<open>sendRequestToExtensionAndWait(payload, type, timeoutMs)\<close> belongs to the module
  native-messaging-host. A call of it is recorded as a \<open>request\<close>; how the returned
  promise settles is given by the parameter \<open>send\<close>.
\<close>

record request =
  req_payload :: jsval
  req_type :: jsval
  req_timeoutMs :: int

record content_item =
  item_type :: string
  item_text :: jsval

record CallToolResult =
  content :: "content_item list"
  isError :: bool

text \<open>
  The handler of \<^verbatim>\<open>ListToolsRequestSchema\<close>. The result is the list of requests issued
  and either the value returned (\<open>Inr\<close>) or the reason the handler rejects with (\<open>Inl\<close>).
\<close>

definition listTools :: "constants \<Rightarrow> (request \<Rightarrow> settlement) \<Rightarrow> request list \<times> (jsval + jsval)" where
  "listTools K send =
     (let req = \<lparr>req_payload = JObj [], req_type = NativeMessageType_LIST_TOOLS K,
                 req_timeoutMs = 30000\<rparr>
      in ([req],
          case send req of
            Resolved tools \<Rightarrow>
              (case get_prop tools ''data'' of
                 None \<Rightarrow> Inl (TypeError ''data'')
               | Some d \<Rightarrow> Inr (JObj [(''tools'', d)]))
          | Rejected e \<Rightarrow> Inl e))"

definition handleToolCall ::
  "constants \<Rightarrow> host \<Rightarrow> (request \<Rightarrow> settlement) \<Rightarrow> string \<Rightarrow> jsval \<Rightarrow>
     request list \<times> (jsval + CallToolResult)" where
  "handleToolCall K H send name args =
     (let req = \<lparr>req_payload = JObj [(''name'', JStr name), (''args'', args)],
                 req_type = NativeMessageType_CALL_TOOL K,
                 req_timeoutMs = 30000\<rparr>
      in ([req],
          case send req of
            Resolved response \<Rightarrow>
              Inr \<lparr>content = [\<lparr>item_type = ''text'', item_text = JSON_stringify H response\<rparr>],
                   isError = False\<rparr>
          | Rejected error \<Rightarrow>
              (case get_prop error ''message'' of
                 None \<Rightarrow> Inl (TypeError ''message'')
               | Some m \<Rightarrow>
                   Inr \<lparr>content = [\<lparr>item_type = ''text'',
                                    item_text = JStr (''Error calling tool: '' @ String_of H m)\<rparr>],
                        isError = True\<rparr>)))"

text \<open>
  The handler of \<^verbatim>\<open>CallToolRequestSchema\<close>:
  \<^verbatim>\<open>handleToolCall(request.params.name, request.params.arguments || {})\<close>.
\<close>

definition callTool ::
  "constants \<Rightarrow> host \<Rightarrow> (request \<Rightarrow> settlement) \<Rightarrow> string \<Rightarrow> jsval \<Rightarrow>
     request list \<times> (jsval + CallToolResult)" where
  "callTool K H send name arguments =
     handleToolCall K H send name (if truthy arguments then arguments else JObj [])"






section \<open>The extension side (native-host.ts)\<close>

subsection \<open>State and effects\<close>

text \<open>
  A \<^verbatim>\<open>chrome.runtime.Port\<close> object is identified by a number. The module's two
  variables form the state; every call of a collaborator (console, storage, runtime
  messaging, the native port, the tool executor, the reply callback) is recorded, in the
  order of the calls, as an event.
\<close>

type_synonym port_id = nat

text \<open>
  \<^verbatim>\<open>port\<close> is an optional property of a status: \<open>None\<close> when the object has no such
  property, \<open>Some v\<close> when it has the property with value \<open>v\<close> (which may be
  \<^verbatim>\<open>undefined\<close>).
\<close>

record ServerStatus =
  isRunning :: bool
  port :: "jsval option"
  lastUpdated :: int

text \<open>The read \<^verbatim>\<open>status.port\<close>.\<close>

definition status_port :: "ServerStatus \<Rightarrow> jsval" where
  "status_port st = (case port st of None \<Rightarrow> JUndefined | Some v \<Rightarrow> v)"

record extension =
  nativePort :: "port_id option"
  currentServerStatus :: ServerStatus

datatype event =
    console_log "jsval list"
  | console_error "jsval list"
  | console_warn "jsval list"
  | storage_local_set string jsval
  | storage_local_get string
  | runtime_sendMessage jsval
  | runtime_connectNative jsval
  | onMessage_addListener port_id
  | onDisconnect_addListener port_id
  | postMessage port_id jsval
  | port_disconnect port_id
  | handleCallTool jsval
  | sendResponse jsval
  | runtime_onStartup_addListener
  | runtime_onMessage_addListener

text \<open>A status as the object that is stored, broadcast and sent in replies.\<close>

definition status_val :: "ServerStatus \<Rightarrow> jsval" where
  "status_val st =
     JObj ([(''isRunning'', JBool (isRunning st))] @
           (case port st of None \<Rightarrow> [] | Some v \<Rightarrow> [(''port'', v)]) @
           [(''lastUpdated'', JNum (lastUpdated st))])"

text \<open>The module's initial state; \<open>now\<close> is the value of \<^verbatim>\<open>Date.now()\<close> at load time.\<close>

definition initial_extension :: "int \<Rightarrow> extension" where
  "initial_extension now =
     \<lparr>nativePort = None,
      currentServerStatus = \<lparr>isRunning = False, port = None, lastUpdated = now\<rparr>\<rparr>"

subsection \<open>Persistence and broadcast\<close>

text \<open>
  \<^verbatim>\<open>saveServerStatus\<close> is asynchronous: it runs up to the call of
  \<^verbatim>\<open>chrome.storage.local.set\<close>, and continues when that promise settles.
\<close>

definition saveServerStatus_call :: "constants \<Rightarrow> ServerStatus \<Rightarrow> event list" where
  "saveServerStatus_call K status =
     [console_log [JStr ''[native] Saving server status to storage:'', status_val status],
      storage_local_set (STORAGE_KEYS_SERVER_STATUS K) (status_val status)]"

definition saveServerStatus_settled :: "constants \<Rightarrow> settlement \<Rightarrow> event list" where
  "saveServerStatus_settled K outcome =
     (case outcome of
        Resolved v \<Rightarrow> [console_log [JStr ''[native] Server status saved successfully'']]
      | Rejected error \<Rightarrow>
          [console_error [JStr ''[native]'', ERROR_MESSAGES_SERVER_STATUS_SAVE_FAILED K, error]])"

text \<open>
  \<^verbatim>\<open>loadServerStatus\<close>: the storage either yields the stored status, if there is one, or
  fails.
\<close>

datatype storage_get = Stored "ServerStatus option" | GetFailed jsval

definition loadServerStatus_call :: "constants \<Rightarrow> event list" where
  "loadServerStatus_call K =
     [console_log [JStr ''[native] Loading server status from storage''],
      storage_local_get (STORAGE_KEYS_SERVER_STATUS K)]"

definition loadServerStatus_settled ::
  "constants \<Rightarrow> int \<Rightarrow> storage_get \<Rightarrow> event list \<times> ServerStatus" where
  "loadServerStatus_settled K now outcome =
     (let defaultStatus = \<lparr>isRunning = False, port = None, lastUpdated = now\<rparr>;
          returning = [console_log [JStr ''[native] Returning default server status:'',
                                    status_val defaultStatus]]
      in case outcome of
           Stored (Some st) \<Rightarrow>
             ([console_log [JStr ''[native] Loaded server status:'', status_val st]], st)
         | Stored None \<Rightarrow>
             (console_log [JStr ''[native] No server status found in storage, using default'']
                # returning, defaultStatus)
         | GetFailed error \<Rightarrow>
             (console_error [JStr ''[native]'', ERROR_MESSAGES_SERVER_STATUS_LOAD_FAILED K, error]
                # returning, defaultStatus))"

definition broadcastServerStatusChange :: "constants \<Rightarrow> ServerStatus \<Rightarrow> event list" where
  "broadcastServerStatusChange K status =
     [console_log [JStr ''[native] Broadcasting server status change:'', status_val status],
      runtime_sendMessage
        (JObj [(''type'', BACKGROUND_SERVER_STATUS_CHANGED K), (''payload'', status_val status)])]"

text \<open>The \<^verbatim>\<open>then\<close> and \<^verbatim>\<open>catch\<close> callbacks of the broadcast, run when it settles.\<close>

definition broadcast_settled :: "settlement \<Rightarrow> event list" where
  "broadcast_settled outcome =
     (case outcome of
        Resolved v \<Rightarrow> [console_log [JStr ''[native] Server status broadcast successful'']]
      | Rejected error \<Rightarrow>
          [console_log [JStr ''[native] No listeners for server status broadcast (this is normal)'']])"

subsection \<open>Connecting\<close>

text \<open>\<^verbatim>\<open>chrome.runtime.connectNative\<close> returns a new port or throws.\<close>

datatype connect_outcome = Connected port_id | ConnectFailed jsval

definition start_message :: "constants \<Rightarrow> jsval \<Rightarrow> jsval" where
  "start_message K p =
     JObj [(''type'', NativeMessageType_START K), (''payload'', JObj [(''port'', p)])]"

text \<open>
  \<^verbatim>\<open>connectNativeHost(port = NATIVE_HOST.DEFAULT_PORT)\<close>. Posting on a port that was
  just returned is taken not to throw.
\<close>

definition connectNativeHost ::
  "constants \<Rightarrow> host \<Rightarrow> connect_outcome \<Rightarrow> jsval \<Rightarrow> extension \<Rightarrow> extension \<times> event list" where
  "connectNativeHost K H connectNative portArg s =
     (let p = (if portArg = JUndefined then NATIVE_HOST_DEFAULT_PORT K else portArg) in
      case nativePort s of
        Some np \<Rightarrow>
          (s, [console_log [JStr ''[native] Native port already connected, skipping connection'']])
      | None \<Rightarrow>
          (let attempt =
                 [console_log [JStr (''[native] Attempting to connect to native host: '' @
                                     String_of H (NATIVE_HOST_NAME K) @ '' on port '' @
                                     String_of H p)],
                  runtime_connectNative (NATIVE_HOST_NAME K)]
           in case connectNative of
                ConnectFailed error \<Rightarrow>
                  (s, attempt @
                      [console_error [JStr ''[native]'',
                                      ERROR_MESSAGES_NATIVE_CONNECTION_FAILED K, error]])
              | Connected np \<Rightarrow>
                  (s\<lparr>nativePort := Some np\<rparr>,
                   attempt @
                   [console_log [JStr ''[native] Native port connection established''],
                    onMessage_addListener np,
                    onDisconnect_addListener np,
                    console_log [JStr ''[native] Sending start message to native host:'',
                                 start_message K p],
                    postMessage np (start_message K p)])))"


subsection \<open>The dispatcher: the listener of nativePort.onMessage\<close>

text \<open>\<^verbatim>\<open>nativePort?.postMessage(x)\<close>: nothing is posted when the variable is null.\<close>

definition nativePort_postMessage :: "extension \<Rightarrow> jsval \<Rightarrow> event list" where
  "nativePort_postMessage s x = (case nativePort s of None \<Rightarrow> [] | Some np \<Rightarrow> [postMessage np x])"

text \<open>\<^verbatim>\<open>error instanceof Error ? error.message : String(error)\<close>.\<close>

definition error_text :: "host \<Rightarrow> jsval \<Rightarrow> string" where
  "error_text H error =
     (if instanceof_Error error then String_of H (get_prop_opt error ''message'')
      else String_of H error)"

definition response_frame :: "jsval \<Rightarrow> jsval \<Rightarrow> jsval" where
  "response_frame requestId payload =
     JObj [(''responseToRequestId'', requestId), (''payload'', payload)]"

text \<open>The response frame that reports a failed tool call.\<close>

definition error_frame :: "constants \<Rightarrow> host \<Rightarrow> jsval \<Rightarrow> jsval \<Rightarrow> jsval" where
  "error_frame K H requestId error =
     response_frame requestId
       (JObj [(''status'', JStr ''error''),
              (''message'', ERROR_MESSAGES_TOOL_EXECUTION_FAILED K),
              (''error'', JStr (error_text H error))])"

text \<open>The response frame that echoes the payload of a process-data frame.\<close>

definition echo_frame :: "constants \<Rightarrow> jsval \<Rightarrow> jsval \<Rightarrow> jsval" where
  "echo_frame K requestId payload =
     response_frame requestId
       (JObj [(''status'', JStr ''success''),
              (''message'', SUCCESS_MESSAGES_TOOL_EXECUTED K),
              (''data'', payload)])"

text \<open>
  The listener is an asynchronous function. It runs without interruption up to an
  \<^verbatim>\<open>await\<close>, where it is suspended; other listeners may run, and change the state,
  before it continues. What remains to be done after the \<^verbatim>\<open>await\<close>, with the local
  variables it needs, is a value of \<open>suspended\<close>.
\<close>

datatype suspended =
    AwaitTool jsval
  | AwaitSaveStarted jsval
  | AwaitSaveStopped

datatype progress = Finished | Suspended suspended | Raised jsval

text \<open>
  The listener up to its first \<^verbatim>\<open>await\<close>; \<open>now\<close> is the value of \<^verbatim>\<open>Date.now()\<close>. Once the
  read of \<^verbatim>\<open>message.type\<close> has succeeded the message is neither \<^verbatim>\<open>undefined\<close> nor
  \<^verbatim>\<open>null\<close>, and its other properties are read with \<open>get_prop_opt\<close>.
\<close>

definition onMessage_begin ::
  "constants \<Rightarrow> host \<Rightarrow> int \<Rightarrow> extension \<Rightarrow> jsval \<Rightarrow> extension \<times> event list \<times> progress" where
  "onMessage_begin K H now s msg =
     (let received = console_log [JStr ''[native] Received message from native host:'', msg] in
      case get_prop msg ''type'' of
        None \<Rightarrow> (s, [received], Raised (TypeError ''type''))
      | Some ty \<Rightarrow>
          (let requestId = get_prop_opt msg ''requestId'';
               payload = get_prop_opt msg ''payload''
           in
           if strict_eq ty (NativeMessageType_PROCESS_DATA K) \<and> truthy requestId then
             (let response = echo_frame K requestId payload
              in (s,
                  [received,
                   console_log [JStr (''[native] Processing data request with ID: '' @
                                      String_of H requestId)],
                   console_log [JStr ''[native] Sending process data response:'', response]] @
                  nativePort_postMessage s response,
                  Finished))
           else if strict_eq ty (NativeMessageType_CALL_TOOL K) \<and> truthy requestId then
             (s,
              [received,
               console_log [JStr (''[native] Handling tool call request with ID: '' @
                                  String_of H requestId), payload],
               handleCallTool payload],
              Suspended (AwaitTool requestId))
           else if strict_eq ty (NativeMessageType_SERVER_STARTED K) then
             (let p = get_prop_opt payload ''port'';
                  s' = s\<lparr>currentServerStatus :=
                          \<lparr>isRunning = True, port = Some p, lastUpdated = now\<rparr>\<rparr>
              in (s',
                  [received,
                   console_log [JStr (''[native] Server started notification received for port: '' @
                                      String_of H p)]] @
                  saveServerStatus_call K (currentServerStatus s'),
                  Suspended (AwaitSaveStarted p)))
           else if strict_eq ty (NativeMessageType_SERVER_STOPPED K) then
             (let s' = s\<lparr>currentServerStatus :=
                          \<lparr>isRunning = False,
                           port = Some (status_port (currentServerStatus s)),
                           lastUpdated = now\<rparr>\<rparr>
              in (s',
                  [received,
                   console_log [JStr ''[native] Server stopped notification received'']] @
                  saveServerStatus_call K (currentServerStatus s'),
                  Suspended AwaitSaveStopped))
           else if strict_eq ty (NativeMessageType_ERROR_FROM_NATIVE_HOST K) then
             (let m = get_prop_opt payload ''message'';
                  errorMessage = (if truthy m then m else JStr ''Unknown error'')
              in (s,
                  [received, console_error [JStr ''[native] Error from native host:'', errorMessage]],
                  Finished))
           else
             (s,
              [received,
               console_warn [JStr ''[native] Received unknown message type from native host:'', ty]],
              Finished)))"

text \<open>
  The rest of the listener, run in the state \<open>s\<close> found when the awaited promise has
  settled with \<open>outcome\<close>: the promise of \<^verbatim>\<open>handleCallTool\<close> in the tool-call branch, the
  promise of \<^verbatim>\<open>chrome.storage.local.set\<close> in the two status branches.
\<close>

definition onMessage_resume ::
  "constants \<Rightarrow> host \<Rightarrow> suspended \<Rightarrow> settlement \<Rightarrow> extension \<Rightarrow> extension \<times> event list" where
  "onMessage_resume K H k outcome s =
     (case k of
        AwaitTool requestId \<Rightarrow>
          (case outcome of
             Resolved result \<Rightarrow>
               (let successResponse =
                      response_frame requestId
                        (JObj [(''status'', JStr ''success''),
                               (''message'', SUCCESS_MESSAGES_TOOL_EXECUTED K),
                               (''data'', result)])
                in (s,
                    [console_log [JStr ''[native] Tool call successful, result:'', result],
                     console_log [JStr ''[native] Sending tool call success response:'',
                                  successResponse]] @
                    nativePort_postMessage s successResponse))
           | Rejected error \<Rightarrow>
               (let errorResponse = error_frame K H requestId error
                in (s,
                    [console_error [JStr ''[native] Tool call failed:'', error],
                     console_log [JStr ''[native] Sending tool call error response:'',
                                  errorResponse]] @
                    nativePort_postMessage s errorResponse)))
      | AwaitSaveStarted p \<Rightarrow>
          (s,
           saveServerStatus_settled K outcome @
           broadcastServerStatusChange K (currentServerStatus s) @
           [console_log [JStr (''[native] '' @ String_of H (SUCCESS_MESSAGES_SERVER_STARTED K) @
                               '' on port '' @ String_of H p)]])
      | AwaitSaveStopped \<Rightarrow>
          (s,
           saveServerStatus_settled K outcome @
           broadcastServerStatusChange K (currentServerStatus s) @
           [console_log [JStr (''[native] '' @ String_of H (SUCCESS_MESSAGES_SERVER_STOPPED K))]]))"

text \<open>
  One whole run of the listener when nothing else runs while it is suspended. The third
  component is the reason with which the listener's promise rejects, if it does.
\<close>

definition onMessage ::
  "constants \<Rightarrow> host \<Rightarrow> int \<Rightarrow> settlement \<Rightarrow> extension \<Rightarrow> jsval \<Rightarrow>
     extension \<times> event list \<times> jsval option" where
  "onMessage K H now outcome s msg =
     (case onMessage_begin K H now s msg of
        (s', evs, Finished) \<Rightarrow> (s', evs, None)
      | (s', evs, Raised e) \<Rightarrow> (s', evs, Some e)
      | (s', evs, Suspended k) \<Rightarrow>
          (case onMessage_resume K H k outcome s' of
             (s'', evs') \<Rightarrow> (s'', evs @ evs', None)))"

subsection \<open>The listener of chrome.runtime.onMessage\<close>



definition status_response :: "extension \<Rightarrow> jsval" where
  "status_response s =
     JObj [(''success'', JBool True),
           (''serverStatus'', status_val (currentServerStatus s)),
           (''connected'', JBool (nativePort s \<noteq> None))]"


text \<open>
  The \<^verbatim>\<open>then\<close> callback of the refresh branch. \<^verbatim>\<open>loadServerStatus\<close> catches the failure
  of the storage itself, so its promise resolves.
\<close>

definition refresh_loaded ::
  "constants \<Rightarrow> int \<Rightarrow> storage_get \<Rightarrow> extension \<Rightarrow> extension \<times> event list" where
  "refresh_loaded K now outcome s =
     (case loadServerStatus_settled K now outcome of
        (evs, storedStatus) \<Rightarrow>
          (let s' = s\<lparr>currentServerStatus := storedStatus\<rparr>
           in (s',
               evs @
               [console_log [JStr ''[native] Sending refresh status success response:'',
                             status_response s'],
                sendResponse (status_response s')])))"

text \<open>
  \<^verbatim>\<open>initNativeHostListener\<close>: the synchronous part, the callback that runs when the
  initial status is loaded, and the listener of \<^verbatim>\<open>chrome.runtime.onStartup\<close>.
\<close>

definition initNativeHostListener :: "constants \<Rightarrow> event list" where
  "initNativeHostListener K =
     [console_log [JStr ''[native] Initializing native host listener'']] @
     loadServerStatus_call K @
     [runtime_onStartup_addListener,
      runtime_onMessage_addListener,
      console_log [JStr ''[native] Native host listener initialization complete'']]"

definition init_loaded ::
  "constants \<Rightarrow> int \<Rightarrow> storage_get \<Rightarrow> extension \<Rightarrow> extension \<times> event list" where
  "init_loaded K now outcome s =
     (case loadServerStatus_settled K now outcome of
        (evs, status) \<Rightarrow>
          (s\<lparr>currentServerStatus := status\<rparr>,
           evs @
           [console_log [JStr ''[native] Server status initialized from storage:'',
                         status_val status]]))"

definition onStartup ::
  "constants \<Rightarrow> host \<Rightarrow> connect_outcome \<Rightarrow> extension \<Rightarrow> extension \<times> event list" where
  "onStartup K H connectNative s =
     (case connectNativeHost K H connectNative JUndefined s of
        (s', evs) \<Rightarrow>
          (s',
           console_log [JStr ''[native] Chrome runtime startup detected, connecting native host'']
             # evs))"

subsection \<open>Observations on a run\<close>

text \<open>The frames posted on native ports, in order.\<close>

fun posted :: "event list \<Rightarrow> (port_id \<times> jsval) list" where
  "posted [] = []"
| "posted (postMessage np x # evs) = (np, x) # posted evs"
| "posted (e # evs) = posted evs"

text \<open>The payloads of the tool invocations, in order.\<close>

fun tool_calls :: "event list \<Rightarrow> jsval list" where
  "tool_calls [] = []"
| "tool_calls (handleCallTool x # evs) = x # tool_calls evs"
| "tool_calls (e # evs) = tool_calls evs"

text \<open>The calls of \<^verbatim>\<open>chrome.runtime.connectNative\<close>, by the host name passed.\<close>

fun channels_opened :: "event list \<Rightarrow> jsval list" where
  "channels_opened [] = []"
| "channels_opened (runtime_connectNative h # evs) = h # channels_opened evs"
| "channels_opened (e # evs) = channels_opened evs"

text \<open>
  The order of persistence and broadcast in a run. The scan is in one of three stages:
  no write has been started (0), a write has been started with
  \<^verbatim>\<open>chrome.storage.local.set\<close> (1), the write has completed or its failure has been
  recorded, which \<^verbatim>\<open>saveServerStatus\<close> marks on the console (2). A broadcast is in order
  only in stage 2.
\<close>

fun is_save_record :: "constants \<Rightarrow> event \<Rightarrow> bool" where
  "is_save_record K (console_log xs) = (xs = [JStr ''[native] Server status saved successfully''])"
| "is_save_record K (console_error xs) =
     (case xs of
        [a, b, c] \<Rightarrow> a = JStr ''[native]'' \<and> b = ERROR_MESSAGES_SERVER_STATUS_SAVE_FAILED K
      | _ \<Rightarrow> False)"
| "is_save_record K e = False"

fun broadcast_in_order :: "constants \<Rightarrow> nat \<Rightarrow> event list \<Rightarrow> bool" where
  "broadcast_in_order K stage [] = True"
| "broadcast_in_order K stage (storage_local_set k v # evs) =
     broadcast_in_order K (if stage = 0 then 1 else stage) evs"
| "broadcast_in_order K stage (runtime_sendMessage m # evs) =
     (stage = 2 \<and> broadcast_in_order K stage evs)"
| "broadcast_in_order K stage (e # evs) =
     broadcast_in_order K (if stage = 1 \<and> is_save_record K e then 2 else stage) evs"


text \<open>The message types that the dispatcher tells apart are pairwise different.\<close>

definition dispatcher_types_distinct :: "constants \<Rightarrow> bool" where
  "dispatcher_types_distinct K =
     distinct [NativeMessageType_PROCESS_DATA K, NativeMessageType_CALL_TOOL K,
               NativeMessageType_SERVER_STARTED K, NativeMessageType_SERVER_STOPPED K,
               NativeMessageType_ERROR_FROM_NATIVE_HOST K]"

text \<open>So are those of the runtime listener.\<close>

definition runtime_types_distinct :: "constants \<Rightarrow> bool" where
  "runtime_types_distinct K =
     distinct [NativeMessageType_CONNECT_NATIVE K, NativeMessageType_PING_NATIVE K,
               NativeMessageType_DISCONNECT_NATIVE K, BACKGROUND_GET_SERVER_STATUS K,
               BACKGROUND_REFRESH_SERVER_STATUS K]"




section \<open>The native server process (entry point)\<close>

text \<open>
  The process writes to its log file and exits. Each call of \<^verbatim>\<open>appendFileSync\<close> is an
  event that records the data and whether the write succeeded; the time stamp of the
  \<open>n\<close>-th event and whether the write then throws are given by the environment.
\<close>

record os =
  toISOString :: "nat \<Rightarrow> string"
  appendFileSync_throws :: "nat \<Rightarrow> bool"

datatype process_event = appendFileSync string bool | exited int

record process =
  trace :: "process_event list"
  exit_code :: "int option"

definition log :: "os \<Rightarrow> string \<Rightarrow> process \<Rightarrow> process" where
  "log E m pr =
     (let n = length (trace pr);
          logMessage = ''['' @ toISOString E n @ ''] '' @ m @ [CHR 0x0A]
      in if appendFileSync_throws E n
         then pr\<lparr>trace := trace pr @ [appendFileSync logMessage False]\<rparr>
         else pr\<lparr>trace := trace pr @ [appendFileSync logMessage True]\<rparr>)"

text \<open>The listener of the \<^verbatim>\<open>exit\<close> event.\<close>

definition on_exit :: "os \<Rightarrow> host \<Rightarrow> int \<Rightarrow> process \<Rightarrow> process" where
  "on_exit E H code pr = log E (''Process exiting with code: '' @ String_of H (JNum code)) pr"

text \<open>
  \<^verbatim>\<open>process.exit(code)\<close> once the listener of \<^verbatim>\<open>exit\<close> is registered: the listener
  runs, then the process ends.
\<close>

definition process_exit :: "os \<Rightarrow> host \<Rightarrow> int \<Rightarrow> process \<Rightarrow> process" where
  "process_exit E H code pr =
     (let pr' = on_exit E H code pr
      in pr'\<lparr>trace := trace pr' @ [exited code], exit_code := Some code\<rparr>)"

text \<open>
  The start-up block. \<open>thrown\<close> is what one of the three calls into the server and the
  native messaging host throws, if any does. The listener of \<^verbatim>\<open>exit\<close> is registered
  after this block, so the exit here runs no listener.
\<close>

definition startup :: "os \<Rightarrow> host \<Rightarrow> jsval option \<Rightarrow> process \<Rightarrow> process" where
  "startup E H thrown pr =
     (let pr1 = log E ''Starting native server...'' pr
      in case thrown of
           None \<Rightarrow> log E ''Native server started successfully'' pr1
         | Some error \<Rightarrow>
             (let pr2 = log E (''Error starting server: '' @ error_text H error) pr1
              in pr2\<lparr>trace := trace pr2 @ [exited 1], exit_code := Some 1\<rparr>))"

text \<open>
  The listeners registered on the process. The listeners of \<^verbatim>\<open>error\<close> and
  \<^verbatim>\<open>uncaughtException\<close> are passed whatever value was thrown and read its \<^verbatim>\<open>message\<close>
  (and \<^verbatim>\<open>stack\<close>) without a test: on \<^verbatim>\<open>undefined\<close> and \<^verbatim>\<open>null\<close> the read raises, so the
  listener ends (\<open>Inl\<close>) before it has called \<^verbatim>\<open>log\<close> or \<^verbatim>\<open>process.exit\<close>. The listener of
  \<^verbatim>\<open>unhandledRejection\<close> tests its reason with \<^verbatim>\<open>instanceof Error\<close>.
\<close>

definition on_error :: "os \<Rightarrow> host \<Rightarrow> jsval \<Rightarrow> process \<Rightarrow> jsval + process" where
  "on_error E H error pr =
     (case get_prop error ''message'' of
        None \<Rightarrow> Inl (TypeError ''message'')
      | Some m \<Rightarrow> Inr (process_exit E H 1 (log E (''Process error: '' @ String_of H m) pr)))"

definition on_SIGINT :: "os \<Rightarrow> host \<Rightarrow> process \<Rightarrow> process" where
  "on_SIGINT E H pr = process_exit E H 0 (log E ''Received SIGINT, shutting down gracefully'' pr)"

definition on_SIGTERM :: "os \<Rightarrow> host \<Rightarrow> process \<Rightarrow> process" where
  "on_SIGTERM E H pr = process_exit E H 0 (log E ''Received SIGTERM, shutting down gracefully'' pr)"

definition on_uncaughtException :: "os \<Rightarrow> host \<Rightarrow> jsval \<Rightarrow> process \<Rightarrow> jsval + process" where
  "on_uncaughtException E H error pr =
     (case get_prop error ''message'' of
        None \<Rightarrow> Inl (TypeError ''message'')
      | Some m \<Rightarrow>
          Inr (process_exit E H 1
                 (log E (''Uncaught exception: '' @ String_of H m @ [CHR 0x0A] @ ''Stack: '' @
                         String_of H (get_prop_opt error ''stack'')) pr)))"

definition on_unhandledRejection :: "os \<Rightarrow> host \<Rightarrow> jsval \<Rightarrow> process \<Rightarrow> process" where
  "on_unhandledRejection E H reason pr =
     log E (''Unhandled rejection: '' @ error_text H reason) pr"

text \<open>The lines that reached the file, in order.\<close>

fun written :: "process_event list \<Rightarrow> string list" where
  "written [] = []"
| "written (appendFileSync d ok # evs) = (if ok then d # written evs else written evs)"
| "written (e # evs) = written evs"

text \<open>The line that the \<open>n\<close>-th call of \<^verbatim>\<open>log\<close> builds from its message.\<close>

definition log_line :: "os \<Rightarrow> nat \<Rightarrow> string \<Rightarrow> string" where
  "log_line E n m = ''['' @ toISOString E n @ ''] '' @ m @ [CHR 0x0A]"

text \<open>The process at its start.\<close>

definition running :: process where
  "running = \<lparr>trace = [], exit_code = None\<rparr>"

section \<open>Sample values\<close>

text \<open>
  One assignment of values to the constants, with pairwise different message types,
  and one host, used where a theorem is evaluated at a concrete input.
\<close>

definition sample_constants :: constants where
  "sample_constants =
     \<lparr>NativeMessageType_START = JStr ''start'',
      NativeMessageType_PROCESS_DATA = JStr ''process-data'',
      NativeMessageType_CALL_TOOL = JStr ''tool-call'',
      NativeMessageType_LIST_TOOLS = JStr ''tool-list-query'',
      NativeMessageType_SERVER_STARTED = JStr ''server-started'',
      NativeMessageType_SERVER_STOPPED = JStr ''server-stopped'',
      NativeMessageType_ERROR_FROM_NATIVE_HOST = JStr ''error'',
      NativeMessageType_CONNECT_NATIVE = JStr ''connect-native'',
      NativeMessageType_PING_NATIVE = JStr ''ping-native'',
      NativeMessageType_DISCONNECT_NATIVE = JStr ''disconnect-native'',
      BACKGROUND_SERVER_STATUS_CHANGED = JStr ''server-status-changed'',
      BACKGROUND_GET_SERVER_STATUS = JStr ''get-server-status'',
      BACKGROUND_REFRESH_SERVER_STATUS = JStr ''refresh-server-status'',
      ERROR_MESSAGES_SERVER_STATUS_SAVE_FAILED = JStr ''save failed'',
      ERROR_MESSAGES_SERVER_STATUS_LOAD_FAILED = JStr ''load failed'',
      ERROR_MESSAGES_TOOL_EXECUTION_FAILED = JStr ''tool failed'',
      ERROR_MESSAGES_NATIVE_DISCONNECTED = JStr ''disconnected'',
      ERROR_MESSAGES_NATIVE_CONNECTION_FAILED = JStr ''connection failed'',
      SUCCESS_MESSAGES_TOOL_EXECUTED = JStr ''tool executed'',
      SUCCESS_MESSAGES_SERVER_STARTED = JStr ''server started'',
      SUCCESS_MESSAGES_SERVER_STOPPED = JStr ''server stopped'',
      STORAGE_KEYS_SERVER_STATUS = ''serverStatus'',
      NATIVE_HOST_NAME = JStr ''host'',
      NATIVE_HOST_DEFAULT_PORT = JNum 12306\<rparr>"

definition sample_host :: host where
  "sample_host = \<lparr>ToString = (\<lambda>v. ''[value]''), JSON_text = (\<lambda>v. ''{}'')\<rparr>"

definition sample_os :: os where
  "sample_os = \<lparr>toISOString = (\<lambda>n. ''2025-01-01T00:00:00.000Z''),
                 appendFileSync_throws = (\<lambda>n. n = 1)\<rparr>"

definition connected_extension :: extension where
  "connected_extension = (initial_extension 0)\<lparr>nativePort := Some 1\<rparr>"



definition tool_call_frame_without_id :: jsval where
  "tool_call_frame_without_id =
     JObj [(''type'', JStr ''tool-call''),
           (''payload'', JObj [(''name'', JStr ''navigate''), (''args'', JObj [])])]"



definition unknown_frame :: jsval where
  "unknown_frame = JObj [(''type'', JStr ''bogus''), (''requestId'', JStr ''r3'')]"

section \<open>Properties of the tool bridge\<close>

lemma handleToolCall_resolved:
  "snd (handleToolCall K H (\<lambda>req. Resolved v) name args) =
     Inr \<lparr>content = [\<lparr>item_type = ''text'', item_text = JSON_stringify H v\<rparr>], isError = False\<rparr>"
  by (simp add: handleToolCall_def Let_def)

lemma handleToolCall_rejected_Error:
  "snd (handleToolCall K H (\<lambda>req. Rejected (JError e)) name args) =
     Inr \<lparr>content = [\<lparr>item_type = ''text'',
                      item_text = JStr (''Error calling tool: '' @ message e)\<rparr>],
          isError = True\<rparr>"
  by (simp add: handleToolCall_def Let_def String_of_def)

text \<open>
  A rejection whose reason is \<^verbatim>\<open>undefined\<close> or \<^verbatim>\<open>null\<close> is outside the four ways in
  which an exchange ends: there the read of \<^verbatim>\<open>error.message\<close> in the catch block raises.
\<close>

lemma handleToolCall_rejected_undefined:
  "snd (handleToolCall K H (\<lambda>req. Rejected JUndefined) name args) = Inl (TypeError ''message'')"
  by (simp add: handleToolCall_def Let_def)



text \<open>
  C5. \<^verbatim>\<open>listTools\<close> issues one request, of type \<^verbatim>\<open>LIST_TOOLS\<close> with a timeout of 30000 ms,
  and when the exchange resolves with a reply object it returns the catalog found in the
  reply's \<^verbatim>\<open>data\<close>; \<^verbatim>\<open>handleToolCall\<close> issues one request, of type \<^verbatim>\<open>CALL_TOOL\<close> with
  payload \<^verbatim>\<open>{name, args}\<close> and a timeout of 30000 ms, and so does the call-tool handler,
  whose \<^verbatim>\<open>args\<close> are the request's arguments or, when these are missing, an empty object.
\<close>

theorem bridge_requests:
  assumes "send \<lparr>req_payload = JObj [], req_type = NativeMessageType_LIST_TOOLS K,
                  req_timeoutMs = 30000\<rparr> = Resolved (JObj reply)"
    and "map_of reply ''data'' = Some catalog"
  shows "fst (listTools K send) =
           [\<lparr>req_payload = JObj [], req_type = NativeMessageType_LIST_TOOLS K,
             req_timeoutMs = 30000\<rparr>] \<and>
         snd (listTools K send) = Inr (JObj [(''tools'', catalog)]) \<and>
         fst (handleToolCall K H send' name args) =
           [\<lparr>req_payload = JObj [(''name'', JStr name), (''args'', args)],
             req_type = NativeMessageType_CALL_TOOL K, req_timeoutMs = 30000\<rparr>] \<and>
         fst (callTool K H send' name arguments) =
           [\<lparr>req_payload = JObj [(''name'', JStr name),
                                (''args'', if truthy arguments then arguments else JObj [])],
             req_type = NativeMessageType_CALL_TOOL K, req_timeoutMs = 30000\<rparr>]"
  using assms by (simp add: listTools_def handleToolCall_def callTool_def Let_def)

theorem bridge_requests_witness:
  "fst (listTools sample_constants (\<lambda>req. Resolved (JObj [(''data'', JArr [JStr ''navigate''])]))) =
     [\<lparr>req_payload = JObj [], req_type = JStr ''tool-list-query'', req_timeoutMs = 30000\<rparr>] \<and>
   snd (listTools sample_constants (\<lambda>req. Resolved (JObj [(''data'', JArr [JStr ''navigate''])]))) =
     Inr (JObj [(''tools'', JArr [JStr ''navigate''])]) \<and>
   fst (handleToolCall sample_constants sample_host (\<lambda>req. Rejected JNull) ''navigate''
          (JObj [(''url'', JStr ''a'')])) =
     [\<lparr>req_payload = JObj [(''name'', JStr ''navigate''), (''args'', JObj [(''url'', JStr ''a'')])],
       req_type = JStr ''tool-call'', req_timeoutMs = 30000\<rparr>]"
  using bridge_requests [where send = "\<lambda>req. Resolved (JObj [(''data'', JArr [JStr ''navigate''])])"
      and K = sample_constants and reply = "[(''data'', JArr [JStr ''navigate''])]"
      and catalog = "JArr [JStr ''navigate'']" and H = sample_host
      and send' = "\<lambda>req. Rejected JNull" and name = "''navigate''"
      and args = "JObj [(''url'', JStr ''a'')]" and arguments = JUndefined]
  by (simp add: sample_constants_def)

section \<open>Properties of the dispatcher\<close>

subsection \<open>Auxiliary facts\<close>

lemma strict_eq_other: "strict_eq a b \<Longrightarrow> b \<noteq> c \<Longrightarrow> \<not> strict_eq a c"
  by (cases a) auto







lemma sample_types_distinct:
  "dispatcher_types_distinct sample_constants" "runtime_types_distinct sample_constants"
  by (simp_all add: dispatcher_types_distinct_def runtime_types_distinct_def sample_constants_def)

subsection \<open>Tool calls that fail\<close>




subsection \<open>Status notifications\<close>






text \<open>The same broadcast with no write before it is out of order.\<close>

lemma out_of_order_without_write:
  "is_save_record K e \<Longrightarrow>
   \<not> broadcast_in_order K 0 (e # console_log l # runtime_sendMessage m # evs)"
  by (cases e) simp_all



subsection \<open>Echo, unknown types and missing request identifiers\<close>



text \<open>With no native port in the state, the same frame is answered by no frame.\<close>

lemma process_data_without_port:
  assumes "get_prop msg ''type'' = Some ty"
    and "strict_eq ty (NativeMessageType_PROCESS_DATA K)"
    and "truthy (get_prop_opt msg ''requestId'')"
    and "nativePort s = None"
  shows "posted (fst (snd (onMessage K H now outcome s msg))) = []"
  using assms
  by (simp add: onMessage_def onMessage_begin_def Let_def nativePort_postMessage_def)

text \<open>
  C7. For every frame whose type is none of the five types that the listener tells
  apart: the listener completes, leaves the state (server status and native port) as it
  is, and does nothing but write the two console lines; no frame is posted and no tool is
  invoked.
\<close>

theorem unknown_type_ignored:
  assumes "get_prop msg ''type'' = Some ty"
    and "\<not> strict_eq ty (NativeMessageType_PROCESS_DATA K)"
    and "\<not> strict_eq ty (NativeMessageType_CALL_TOOL K)"
    and "\<not> strict_eq ty (NativeMessageType_SERVER_STARTED K)"
    and "\<not> strict_eq ty (NativeMessageType_SERVER_STOPPED K)"
    and "\<not> strict_eq ty (NativeMessageType_ERROR_FROM_NATIVE_HOST K)"
  shows "onMessage K H now outcome s msg =
           (s,
            [console_log [JStr ''[native] Received message from native host:'', msg],
             console_warn [JStr ''[native] Received unknown message type from native host:'', ty]],
            None) \<and>
         posted (fst (snd (onMessage K H now outcome s msg))) = [] \<and>
         tool_calls (fst (snd (onMessage K H now outcome s msg))) = []"
  using assms
  by (simp add: onMessage_def onMessage_begin_def Let_def)

theorem unknown_type_ignored_witness:
  "onMessage sample_constants sample_host 5 (Resolved JNull) connected_extension unknown_frame =
     (connected_extension,
      [console_log [JStr ''[native] Received message from native host:'', unknown_frame],
       console_warn [JStr ''[native] Received unknown message type from native host:'',
                     JStr ''bogus'']],
      None)"
  using unknown_type_ignored [where msg = unknown_frame and ty = "JStr ''bogus''"
      and K = sample_constants and s = connected_extension and H = sample_host
      and now = 5 and outcome = "Resolved JNull"]
  by (simp add: unknown_frame_def sample_constants_def)

text \<open>
  C10. For every tool-call or process-data frame that lacks a requestId (the listener's
  test \<^verbatim>\<open>message.requestId\<close> fails): the listener takes its last branch. It completes,
  leaves the state as it is, and does nothing but write the two console lines, the second
  being the warning about an unknown message type; no tool is invoked and no frame is
  posted.
\<close>

theorem missing_requestId_falls_through:
  assumes "dispatcher_types_distinct K"
    and "get_prop msg ''type'' = Some ty"
    and "strict_eq ty (NativeMessageType_CALL_TOOL K) \<or>
         strict_eq ty (NativeMessageType_PROCESS_DATA K)"
    and "\<not> truthy (get_prop_opt msg ''requestId'')"
  shows "onMessage K H now outcome s msg =
           (s,
            [console_log [JStr ''[native] Received message from native host:'', msg],
             console_warn [JStr ''[native] Received unknown message type from native host:'', ty]],
            None) \<and>
         posted (fst (snd (onMessage K H now outcome s msg))) = [] \<and>
         tool_calls (fst (snd (onMessage K H now outcome s msg))) = []"
proof -
  from assms(3) have others:
    "\<not> strict_eq ty (NativeMessageType_SERVER_STARTED K)"
    "\<not> strict_eq ty (NativeMessageType_SERVER_STOPPED K)"
    "\<not> strict_eq ty (NativeMessageType_ERROR_FROM_NATIVE_HOST K)"
    using assms(1) by (auto simp: dispatcher_types_distinct_def dest: strict_eq_other)
  show ?thesis
    using assms(2,4) others
    by (simp add: onMessage_def onMessage_begin_def Let_def)
qed

theorem missing_requestId_falls_through_witness:
  "dispatcher_types_distinct sample_constants \<and>
   \<not> truthy (get_prop_opt tool_call_frame_without_id ''requestId'') \<and>
   onMessage sample_constants sample_host 5 (Resolved JNull) connected_extension
       tool_call_frame_without_id =
     (connected_extension,
      [console_log [JStr ''[native] Received message from native host:'',
                    tool_call_frame_without_id],
       console_warn [JStr ''[native] Received unknown message type from native host:'',
                     JStr ''tool-call'']],
      None)"
  using missing_requestId_falls_through [where msg = tool_call_frame_without_id
      and ty = "JStr ''tool-call''" and K = sample_constants and s = connected_extension
      and H = sample_host and now = 5 and outcome = "Resolved JNull"]
    sample_types_distinct
  by (simp add: tool_call_frame_without_id_def get_prop_opt_def sample_constants_def)

subsection \<open>Connecting\<close>

text \<open>
  C9. While a native port is connected, \<^verbatim>\<open>connectNativeHost\<close> leaves the state as it is
  and only writes one console line: no channel is opened and no frame is posted. When no
  port exists and the runtime returns the port \<open>np\<close>, it opens one channel, stores \<open>np\<close>
  and posts the start frame, with the given port or else the default port, on \<open>np\<close>; a
  further call, with any arguments, then changes nothing. When the runtime fails to open
  the channel, the state is left as it is and nothing is posted.
\<close>

theorem connect_idempotent:
  "(nativePort s \<noteq> None \<longrightarrow>
      connectNativeHost K H c portArg s =
        (s, [console_log [JStr ''[native] Native port already connected, skipping connection'']])) \<and>
   (nativePort s = None \<longrightarrow>
      fst (connectNativeHost K H (Connected np) portArg s) = s\<lparr>nativePort := Some np\<rparr> \<and>
      channels_opened (snd (connectNativeHost K H (Connected np) portArg s)) =
        [NATIVE_HOST_NAME K] \<and>
      posted (snd (connectNativeHost K H (Connected np) portArg s)) =
        [(np, start_message K (if portArg = JUndefined then NATIVE_HOST_DEFAULT_PORT K
                               else portArg))] \<and>
      connectNativeHost K H c' portArg' (fst (connectNativeHost K H (Connected np) portArg s)) =
        (fst (connectNativeHost K H (Connected np) portArg s),
         [console_log [JStr ''[native] Native port already connected, skipping connection'']]) \<and>
      fst (connectNativeHost K H (ConnectFailed e) portArg s) = s \<and>
      posted (snd (connectNativeHost K H (ConnectFailed e) portArg s)) = [])"
  by (auto simp: connectNativeHost_def Let_def)

theorem connect_idempotent_witness:
  "connectNativeHost sample_constants sample_host (Connected 2) (JNum 9222) connected_extension =
     (connected_extension,
      [console_log [JStr ''[native] Native port already connected, skipping connection'']]) \<and>
   fst (connectNativeHost sample_constants sample_host (Connected 2) (JNum 9222)
          (initial_extension 0)) = (initial_extension 0)\<lparr>nativePort := Some 2\<rparr> \<and>
   posted (snd (connectNativeHost sample_constants sample_host (Connected 2) (JNum 9222)
          (initial_extension 0))) =
     [(2, JObj [(''type'', JStr ''start''), (''payload'', JObj [(''port'', JNum 9222)])])] \<and>
   posted (snd (connectNativeHost sample_constants sample_host (Connected 3) JUndefined
          (fst (connectNativeHost sample_constants sample_host (Connected 2) (JNum 9222)
                  (initial_extension 0))))) = []"
  using connect_idempotent [where s = connected_extension and K = sample_constants
      and H = sample_host and c = "Connected 2" and portArg = "JNum 9222" and np = 2
      and c' = "Connected 3" and portArg' = JUndefined and e = JNull]
    connect_idempotent [where s = "initial_extension 0" and K = sample_constants
      and H = sample_host and c = "Connected 2" and portArg = "JNum 9222" and np = 2
      and c' = "Connected 3" and portArg' = JUndefined and e = JNull]
  by (simp add: connected_extension_def initial_extension_def start_message_def
      sample_constants_def connectNativeHost_def Let_def)

section \<open>Properties of the native server process\<close>

lemma log_trace:
  "trace (log E m pr) =
     trace pr @ [appendFileSync (log_line E (length (trace pr)) m)
                   (\<not> appendFileSync_throws E (length (trace pr)))]"
  by (simp add: log_def log_line_def Let_def)

lemma log_exit_code: "exit_code (log E m pr) = exit_code pr"
  by (simp add: log_def Let_def)

lemma written_append: "written (xs @ ys) = written xs @ written ys"
  by (induction xs rule: written.induct) simp_all

text \<open>
  What the listeners do with a thrown value that is neither \<^verbatim>\<open>undefined\<close> nor \<^verbatim>\<open>null\<close>,
  here an \<^verbatim>\<open>Error\<close>, and what \<^verbatim>\<open>log\<close> does when the write throws. The listener of
  \<^verbatim>\<open>uncaughtException\<close> passes the message and the stack to \<^verbatim>\<open>log\<close>, the exit listener logs
  the code, and then the process has exited with code 1. The listener of
  \<^verbatim>\<open>unhandledRejection\<close> passes the reason to \<^verbatim>\<open>log\<close> and does nothing else. \<^verbatim>\<open>log\<close> returns
  whether or not the write throws and never ends the process.
\<close>

lemma process_failures:
  "on_uncaughtException E H (JError (Error m st)) pr =
     Inr (pr\<lparr>trace :=
               trace pr @
               [appendFileSync
                  (''['' @ toISOString E (length (trace pr)) @ ''] '' @
                   ''Uncaught exception: '' @ m @ [CHR 0x0A] @ ''Stack: '' @
                   (case st of None \<Rightarrow> ''undefined'' | Some t \<Rightarrow> t) @ [CHR 0x0A])
                  (\<not> appendFileSync_throws E (length (trace pr))),
                appendFileSync
                  (''['' @ toISOString E (Suc (length (trace pr))) @ ''] '' @
                   ''Process exiting with code: '' @ String_of H (JNum 1) @ [CHR 0x0A])
                  (\<not> appendFileSync_throws E (Suc (length (trace pr)))),
                exited 1],
             exit_code := Some 1\<rparr>) \<and>
   exit_code (on_unhandledRejection E H reason pr) = exit_code pr \<and>
   trace (on_unhandledRejection E H reason pr) =
     trace pr @
     [appendFileSync
        (''['' @ toISOString E (length (trace pr)) @ ''] '' @ ''Unhandled rejection: '' @
         (case reason of JError e \<Rightarrow> message e | _ \<Rightarrow> String_of H reason) @ [CHR 0x0A])
        (\<not> appendFileSync_throws E (length (trace pr)))] \<and>
   exit_code (log E line pr) = exit_code pr \<and>
   written (trace (log E line pr)) =
     (if appendFileSync_throws E (length (trace pr)) then written (trace pr)
      else written (trace pr) @
           [''['' @ toISOString E (length (trace pr)) @ ''] '' @ line @ [CHR 0x0A]])"
  by (cases st; cases reason)
     (simp_all add: on_uncaughtException_def on_unhandledRejection_def process_exit_def
        on_exit_def log_trace log_exit_code written_append log_line_def error_text_def
        String_of_def get_prop_opt_def Let_def)

text \<open>
  At the start of the process, with a second write that throws: the line of the uncaught
  \<^verbatim>\<open>Error\<close> reaches the file, the exit line does not, and the process has exited with
  code 1.
\<close>

lemma uncaught_Error_example:
  "map_sum id (\<lambda>pr. (written (trace pr), exit_code pr))
     (on_uncaughtException sample_os sample_host (JError (Error ''boom'' None)) running) =
   Inr ([''[2025-01-01T00:00:00.000Z] Uncaught exception: boom'' @ [CHR 0x0A] @
         ''Stack: undefined'' @ [CHR 0x0A]],
        Some 1)"
  by (simp add: on_uncaughtException_def process_exit_def on_exit_def log_def Let_def
      String_of_def get_prop_opt_def sample_os_def sample_host_def running_def)

text \<open>
  C8 fails on the code. When the value thrown and not caught is \<^verbatim>\<open>null\<close> or
  \<^verbatim>\<open>undefined\<close>, the listener of \<^verbatim>\<open>uncaughtException\<close> raises at the read of
  \<^verbatim>\<open>error.message\<close>: it ends before it has called \<^verbatim>\<open>log\<close> and \<^verbatim>\<open>process.exit(1)\<close>, so the
  exception is not logged. The listener of \<^verbatim>\<open>unhandledRejection\<close>, which tests its reason
  with \<^verbatim>\<open>instanceof Error\<close>, logs the same value and the process goes on.
\<close>

theorem uncaught_null_not_logged:
  "on_uncaughtException E H JNull pr = Inl (TypeError ''message'') \<and>
   on_uncaughtException E H JUndefined pr = Inl (TypeError ''message'') \<and>
   trace (on_unhandledRejection E H JNull pr) =
     trace pr @
     [appendFileSync
        (''['' @ toISOString E (length (trace pr)) @ ''] '' @ ''Unhandled rejection: null'' @
         [CHR 0x0A])
        (\<not> appendFileSync_throws E (length (trace pr)))] \<and>
   exit_code (on_unhandledRejection E H JNull pr) = exit_code pr"
  by (simp add: on_uncaughtException_def on_unhandledRejection_def log_trace log_exit_code
      log_line_def error_text_def String_of_def)

end
